theory Spec2Isabelle
  imports Complex_Main
begin

section \<open>Time utilities (src/lib/utils.ts)\<close>

text \<open>
  A JavaScript \<open>Date\<close> is modelled by its millisecond count. The counts are taken on the
  server's wall clock (a zone with a fixed offset from UTC), so that differences of
  \<open>getTime()\<close> are differences of these counts and \<open>getHours()\<close>, \<open>getMinutes()\<close>
  and \<open>getDay()\<close> read the count directly. Invalid dates are not modelled: the dates of
  the program come from \<open>new Date()\<close> and from the database.
\<close>

type_synonym Date = int

definition getHours :: "Date \<Rightarrow> int" where
  "getHours d = (d div 3600000) mod 24"

definition getMinutes :: "Date \<Rightarrow> int" where
  "getMinutes d = (d div 60000) mod 60"

text \<open>\<open>Math.floor((end.getTime() - start.getTime()) / (1000 * 60))\<close>; \<open>div\<close> on \<open>int\<close>
  rounds towards minus infinity, as \<open>Math.floor\<close> does.\<close>

definition differenceInMinutes :: "Date \<Rightarrow> Date \<Rightarrow> int" where
  "differenceInMinutes end start = (end - start) div (1000 * 60)"

text \<open>
  \<open>timeStr.split(":").map(Number)\<close>. A number that is \<open>NaN\<close> (or a missing array
  element, which is \<open>undefined\<close> and turns into \<open>NaN\<close> in arithmetic) is \<open>None\<close>.
  \<open>Number\<close> is modelled on strings of decimal digits (the empty string gives 0), which
  is what the shift-type schema \<open>/^\d{2}:\d{2}$/\<close> admits; every other string is \<open>NaN\<close>.
\<close>

fun split_on :: "char \<Rightarrow> string \<Rightarrow> string list" where
  "split_on c [] = [[]]"
| "split_on c (x # xs) =
     (if x = c then [] # split_on c xs
      else (case split_on c xs of [] \<Rightarrow> [[x]] | p # ps \<Rightarrow> (x # p) # ps))"

text \<open>The value of a decimal digit, from its character code (\<open>0\<close> is 48, \<open>9\<close> is 57).\<close>

definition digit_value :: "char \<Rightarrow> int option" where
  "digit_value c =
     (let code = int (of_char c)
      in if 48 \<le> code \<and> code \<le> 57 then Some (code - 48) else None)"

fun Number_from :: "int \<Rightarrow> string \<Rightarrow> int option" where
  "Number_from acc [] = Some acc"
| "Number_from acc (c # cs) =
     (case digit_value c of None \<Rightarrow> None | Some v \<Rightarrow> Number_from (10 * acc + v) cs)"

definition Number :: "string \<Rightarrow> int option" where
  "Number s = Number_from 0 s"

record HoursMinutes =
  hours :: "int option"
  minutes :: "int option"

definition parseTimeString :: "string \<Rightarrow> HoursMinutes" where
  "parseTimeString timeStr =
     (let parts = map Number (split_on CHR '':'' timeStr)
      in \<lparr> hours = (case parts of [] \<Rightarrow> None | h # _ \<Rightarrow> h),
           minutes = (case parts of _ # m # _ \<Rightarrow> m | _ \<Rightarrow> None) \<rparr>)"

text \<open>The expression \<open>t.hours * 60 + t.minutes\<close>, which is \<open>NaN\<close> as soon as a part is.\<close>

definition minutesOfDay :: "HoursMinutes \<Rightarrow> int option" where
  "minutesOfDay t =
     (case (hours t, minutes t) of (Some h, Some m) \<Rightarrow> Some (h * 60 + m) | _ \<Rightarrow> None)"


section \<open>Data model (Prisma entities read by the engine)\<close>

datatype BreakType = REST | MEAL | PERSONAL | EMERGENCY

datatype AttendanceStatus =
  Status_CLOCKED_IN | Status_ON_BREAK | Status_CLOCKED_OUT | Status_PENDING_REVIEW
  | Status_APPROVED | Status_ABSENT | Status_REJECTED

record ShiftType =
  startTime :: string
  endTime :: string
  breakDuration :: int
  maxBreakCount :: int
  isSplit :: bool
  splitBreakStart :: "string option"
  splitBreakEnd :: "string option"

record Break =
  brk_id :: string
  brk_startTime :: Date
  brk_endTime :: "Date option"
  brk_type :: BreakType

record Schedule =
  sched_id :: string
  shiftType :: ShiftType

datatype EmploymentType = FULL_TIME | PART_TIME

text \<open>The selected columns of the user; the \<open>Decimal\<close> columns are exact rationals.\<close>

record User =
  usr_id :: string
  usr_name :: string
  usr_employeeId :: string
  usr_employmentType :: "EmploymentType option"
  usr_hourlyRate :: "rat option"
  usr_monthlySalary :: "rat option"

record Attendance =
  att_id :: string
  att_userId :: string
  att_user :: User
  att_date :: Date
  att_status :: AttendanceStatus
  att_clockIn :: "Date option"
  att_clockOut :: "Date option"
  att_clockIn2 :: "Date option"
  att_clockOut2 :: "Date option"
  att_totalMinutes :: "int option"
  att_breakMinutes :: "int option"
  att_netWorkMinutes :: "int option"
  att_overtimeMinutes :: "int option"
  att_breaks :: "Break list"
  att_schedule :: "Schedule option"


section \<open>Clock state machine (src/lib/attendance/state-machine.ts)\<close>

datatype ClockState = NOT_CLOCKED_IN | WORKING | ON_BREAK | CLOCKED_OUT | SPLIT_BREAK

datatype ClockAction =
  CLOCK_IN | CLOCK_OUT | START_BREAK | END_BREAK | CLOCK_IN_SEGMENT_2 | CLOCK_OUT_SEGMENT_2

record ClockContext =
  ctx_schedule :: "Schedule option"
  ctx_attendance :: "Attendance option"
  ctx_currentBreakId :: "string option"

text \<open>
  The reasons are Chinese message strings in the source; each is a constructor here:
  \<open>MaxBreaksReached n\<close> is the template with the maximum, \<open>EndBreakFirst\<close> "end the break
  before clocking out", \<open>NotSplitShift\<close> "not a split shift", \<open>Segment2NotStarted\<close>
  "segment 2 not started", and \<open>CannotFrom s a\<close> the template "cannot do a from state s".
\<close>

datatype Reason =
  MaxBreaksReached int | EndBreakFirst | NotSplitShift | Segment2NotStarted
  | CannotFrom ClockState ClockAction

record GuardResult =
  allowed :: bool
  reason :: "Reason option"

datatype Guard = NoGuard | StartBreakGuard | ClockOutGuard | SplitGuard | Segment2Guard

record StateTransition =
  tr_from :: "ClockState list"
  tr_to :: ClockState
  tr_action :: ClockAction
  tr_guard :: Guard

definition maxBreaks_of :: "ClockContext \<Rightarrow> int" where
  "maxBreaks_of ctx =
     (case ctx_schedule ctx of None \<Rightarrow> 3 | Some s \<Rightarrow> maxBreakCount (shiftType s))"

definition breakCount_of :: "ClockContext \<Rightarrow> int" where
  "breakCount_of ctx =
     (case ctx_attendance ctx of None \<Rightarrow> 0 | Some a \<Rightarrow> int (length (att_breaks a)))"

definition ctx_isSplit :: "ClockContext \<Rightarrow> bool" where
  "ctx_isSplit ctx = (case ctx_schedule ctx of None \<Rightarrow> False | Some s \<Rightarrow> isSplit (shiftType s))"

text \<open>The guard bodies of the transition table, in the table's order.\<close>

fun run_guard :: "Guard \<Rightarrow> ClockContext \<Rightarrow> GuardResult" where
  "run_guard NoGuard ctx = \<lparr> allowed = True, reason = None \<rparr>"
| "run_guard StartBreakGuard ctx =
     (if breakCount_of ctx \<ge> maxBreaks_of ctx
      then \<lparr> allowed = False, reason = Some (MaxBreaksReached (maxBreaks_of ctx)) \<rparr>
      else \<lparr> allowed = True, reason = None \<rparr>)"
| "run_guard ClockOutGuard ctx =
     (case ctx_attendance ctx of
        None \<Rightarrow> \<lparr> allowed = True, reason = None \<rparr>
      | Some a \<Rightarrow>
          (case find (\<lambda>b. brk_endTime b = None) (att_breaks a) of
             Some unendedBreak \<Rightarrow> \<lparr> allowed = False, reason = Some EndBreakFirst \<rparr>
           | None \<Rightarrow> \<lparr> allowed = True, reason = None \<rparr>))"
| "run_guard SplitGuard ctx =
     (if \<not> ctx_isSplit ctx
      then \<lparr> allowed = False, reason = Some NotSplitShift \<rparr>
      else \<lparr> allowed = True, reason = None \<rparr>)"
| "run_guard Segment2Guard ctx =
     (if (case ctx_attendance ctx of None \<Rightarrow> True | Some a \<Rightarrow> att_clockIn2 a = None)
      then \<lparr> allowed = False, reason = Some Segment2NotStarted \<rparr>
      else \<lparr> allowed = True, reason = None \<rparr>)"

definition transitions :: "StateTransition list" where
  "transitions =
     [ \<lparr> tr_from = [NOT_CLOCKED_IN], tr_to = WORKING, tr_action = CLOCK_IN, tr_guard = NoGuard \<rparr>,
       \<lparr> tr_from = [WORKING], tr_to = ON_BREAK, tr_action = START_BREAK,
         tr_guard = StartBreakGuard \<rparr>,
       \<lparr> tr_from = [ON_BREAK], tr_to = WORKING, tr_action = END_BREAK, tr_guard = NoGuard \<rparr>,
       \<lparr> tr_from = [WORKING], tr_to = CLOCKED_OUT, tr_action = CLOCK_OUT,
         tr_guard = ClockOutGuard \<rparr>,
       \<lparr> tr_from = [CLOCKED_OUT], tr_to = SPLIT_BREAK, tr_action = CLOCK_OUT,
         tr_guard = SplitGuard \<rparr>,
       \<lparr> tr_from = [SPLIT_BREAK], tr_to = WORKING, tr_action = CLOCK_IN_SEGMENT_2,
         tr_guard = NoGuard \<rparr>,
       \<lparr> tr_from = [WORKING], tr_to = CLOCKED_OUT, tr_action = CLOCK_OUT_SEGMENT_2,
         tr_guard = Segment2Guard \<rparr> ]"

record ClockStateMachine =
  sm_state :: ClockState
  sm_context :: ClockContext

definition fromAttendance :: "Attendance option \<Rightarrow> Schedule option \<Rightarrow> ClockStateMachine" where
  "fromAttendance attendance schedule =
     \<lparr> sm_state =
         (case attendance of
            None \<Rightarrow> NOT_CLOCKED_IN
          | Some a \<Rightarrow>
              if att_status a = Status_ON_BREAK then ON_BREAK
              else if att_status a = Status_CLOCKED_OUT then
                (if (case schedule of None \<Rightarrow> False | Some s \<Rightarrow> isSplit (shiftType s))
                    \<and> att_clockIn2 a = None
                 then SPLIT_BREAK else CLOCKED_OUT)
              else if att_status a = Status_CLOCKED_IN then WORKING
              else CLOCKED_OUT),
       sm_context =
         \<lparr> ctx_schedule = schedule,
           ctx_attendance = attendance,
           ctx_currentBreakId =
             (case attendance of
                None \<Rightarrow> None
              | Some a \<Rightarrow> map_option brk_id (find (\<lambda>b. brk_endTime b = None) (att_breaks a))) \<rparr> \<rparr>"

definition find_transition :: "ClockStateMachine \<Rightarrow> ClockAction \<Rightarrow> StateTransition option" where
  "find_transition m action =
     find (\<lambda>t. tr_action t = action \<and> sm_state m \<in> set (tr_from t)) transitions"

definition canTransition :: "ClockStateMachine \<Rightarrow> ClockAction \<Rightarrow> GuardResult" where
  "canTransition m action =
     (case find_transition m action of
        None \<Rightarrow> \<lparr> allowed = False, reason = Some (CannotFrom (sm_state m) action) \<rparr>
      | Some transition \<Rightarrow> run_guard (tr_guard transition) (sm_context m))"


record AvailableAction =
  av_action :: ClockAction
  av_allowed :: bool
  av_reason :: "Reason option"

definition getAvailableActions :: "ClockStateMachine \<Rightarrow> AvailableAction list" where
  "getAvailableActions m =
     map (\<lambda>t. let result = run_guard (tr_guard t) (sm_context m)
              in \<lparr> av_action = tr_action t, av_allowed = allowed result,
                   av_reason = reason result \<rparr>)
         (filter (\<lambda>t. sm_state m \<in> set (tr_from t)) transitions)"


section \<open>Work-hours calculator (src/lib/attendance/work-hours-calculator.ts)\<close>

record BreakInput =
  bi_startTime :: Date
  bi_endTime :: "Date option"
  bi_type :: BreakType

record BreakDetail =
  bd_startTime :: Date
  bd_endTime :: "Date option"
  bd_durationMinutes :: int
  bd_type :: BreakType

record WorkHoursInput =
  in_clockIn :: Date
  in_clockOut :: Date
  in_clockIn2 :: "Date option"
  in_clockOut2 :: "Date option"
  in_breaks :: "BreakInput list"
  in_shiftType :: "ShiftType option"

text \<open>The four timing anomalies are \<open>NaN\<close> (\<open>None\<close>) when a shift time does not parse.\<close>

record WorkHoursResult =
  totalMinutes :: int
  breakMinutes :: int
  netWorkMinutes :: int
  regularMinutes :: int
  overtimeMinutes :: int
  segment1Minutes :: int
  segment2Minutes :: int
  splitBreakMinutes :: int
  earlyClockIn :: "int option"
  lateClockIn :: "int option"
  earlyClockOut :: "int option"
  lateClockOut :: "int option"
  hasUnendedBreak :: bool
  exceedsMaxBreakTime :: bool
  requiresReview :: bool
  breakDetails :: "BreakDetail list"

text \<open>Arithmetic and comparison of numbers that may be \<open>NaN\<close>: an operation on \<open>NaN\<close> is
  \<open>NaN\<close>, a comparison with \<open>NaN\<close> is false.\<close>

definition nan_minus :: "int option \<Rightarrow> int option \<Rightarrow> int option" where
  "nan_minus a b = (case (a, b) of (Some x, Some y) \<Rightarrow> Some (x - y) | _ \<Rightarrow> None)"

definition nan_max0 :: "int option \<Rightarrow> int option" where
  "nan_max0 a = map_option (max 0) a"

definition nan_greater :: "int option \<Rightarrow> int \<Rightarrow> bool" where
  "nan_greater a k = (case a of Some x \<Rightarrow> x > k | None \<Rightarrow> False)"

definition nan_less :: "int option \<Rightarrow> int \<Rightarrow> bool" where
  "nan_less a k = (case a of Some x \<Rightarrow> x < k | None \<Rightarrow> False)"

definition truthy_string :: "string option \<Rightarrow> bool" where
  "truthy_string s = (case s of None \<Rightarrow> False | Some t \<Rightarrow> t \<noteq> [])"

definition calculateScheduledMinutes :: "ShiftType \<Rightarrow> int option" where
  "calculateScheduledMinutes st =
     (let start = parseTimeString (startTime st);
          end = parseTimeString (endTime st);
          totalMinutes0 = nan_minus (minutesOfDay end) (minutesOfDay start);
          totalMinutes1 = (if nan_less totalMinutes0 0
                           then map_option (\<lambda>t. t + 24 * 60) totalMinutes0 else totalMinutes0);
          totalMinutes2 =
            (if isSplit st \<and> truthy_string (splitBreakStart st) \<and> truthy_string (splitBreakEnd st)
             then (let splitStart = parseTimeString (the (splitBreakStart st));
                       splitEnd = parseTimeString (the (splitBreakEnd st));
                       splitMinutes = nan_minus (minutesOfDay splitEnd) (minutesOfDay splitStart)
                   in nan_minus totalMinutes1 splitMinutes)
             else totalMinutes1)
      in nan_minus totalMinutes2 (Some (breakDuration st)))"

definition calculateTimingAnomalies ::
  "Date \<Rightarrow> Date \<Rightarrow> ShiftType option \<Rightarrow> int option \<times> int option \<times> int option \<times> int option" where
  "calculateTimingAnomalies clockIn clockOut shiftTypeOpt =
     (case shiftTypeOpt of
        None \<Rightarrow> (Some 0, Some 0, Some 0, Some 0)
      | Some st \<Rightarrow>
          (let scheduledStart = parseTimeString (startTime st);
               scheduledEnd = parseTimeString (endTime st);
               clockInMinutes = Some (getHours clockIn * 60 + getMinutes clockIn);
               clockOutMinutes = Some (getHours clockOut * 60 + getMinutes clockOut);
               schedStartMinutes = minutesOfDay scheduledStart;
               schedEndMinutes = minutesOfDay scheduledEnd
           in (nan_max0 (nan_minus schedStartMinutes clockInMinutes),
               nan_max0 (nan_minus clockInMinutes schedStartMinutes),
               nan_max0 (nan_minus schedEndMinutes clockOutMinutes),
               nan_max0 (nan_minus clockOutMinutes schedEndMinutes))))"

text \<open>
  The loop over the breaks, with its three accumulators \<open>breakMinutes\<close>,
  \<open>hasUnendedBreak\<close> and \<open>breakDetails\<close>. \<open>now\<close> is the value of \<open>new Date()\<close> read for
  an open break.
\<close>

fun breaks_loop ::
  "Date \<Rightarrow> BreakInput list \<Rightarrow> int \<times> bool \<times> BreakDetail list \<Rightarrow> int \<times> bool \<times> BreakDetail list" where
  "breaks_loop now [] acc = acc"
| "breaks_loop now (brk # rest) (breakMinutes0, hasUnendedBreak0, breakDetails0) =
     (case bi_endTime brk of
        Some e \<Rightarrow>
          (let durationMinutes = differenceInMinutes e (bi_startTime brk)
           in breaks_loop now rest
                (breakMinutes0 + durationMinutes, hasUnendedBreak0,
                 breakDetails0 @ [\<lparr> bd_startTime = bi_startTime brk, bd_endTime = bi_endTime brk,
                                    bd_durationMinutes = durationMinutes, bd_type = bi_type brk \<rparr>]))
      | None \<Rightarrow>
          (let durationMinutes = differenceInMinutes now (bi_startTime brk)
           in breaks_loop now rest
                (breakMinutes0 + durationMinutes, True,
                 breakDetails0 @ [\<lparr> bd_startTime = bi_startTime brk, bd_endTime = bi_endTime brk,
                                    bd_durationMinutes = durationMinutes, bd_type = bi_type brk \<rparr>])))"

definition calculateWorkHours :: "Date \<Rightarrow> WorkHoursInput \<Rightarrow> WorkHoursResult" where
  "calculateWorkHours now input =
     (let clockIn = in_clockIn input; clockOut = in_clockOut input;
          segment1Minutes = differenceInMinutes clockOut clockIn;
          segment2Minutes =
            (case (in_clockIn2 input, in_clockOut2 input) of
               (Some clockIn2, Some clockOut2) \<Rightarrow> differenceInMinutes clockOut2 clockIn2
             | _ \<Rightarrow> 0);
          (breakMinutes, hasUnendedBreak, breakDetails) =
            breaks_loop now (in_breaks input) (0, False, []);
          splitBreakMinutes =
            (case (in_shiftType input, in_clockIn2 input) of
               (Some st, Some clockIn2) \<Rightarrow>
                 if isSplit st then differenceInMinutes clockIn2 clockOut else 0
             | _ \<Rightarrow> 0);
          totalMinutes = segment1Minutes + segment2Minutes;
          netWorkMinutes = totalMinutes - breakMinutes;
          (regularMinutes, overtimeMinutes) =
            (case in_shiftType input of
               None \<Rightarrow> (netWorkMinutes, 0)
             | Some st \<Rightarrow>
                 (case calculateScheduledMinutes st of
                    None \<Rightarrow> (netWorkMinutes, 0)
                  | Some scheduledMinutes \<Rightarrow>
                      if netWorkMinutes > scheduledMinutes
                      then (scheduledMinutes, netWorkMinutes - scheduledMinutes)
                      else (netWorkMinutes, 0)));
          (earlyClockIn, lateClockIn, earlyClockOut, lateClockOut) =
            calculateTimingAnomalies clockIn clockOut (in_shiftType input);
          maxBreakMinutes = (case in_shiftType input of None \<Rightarrow> 30 | Some st \<Rightarrow> breakDuration st);
          exceedsMaxBreakTime = (rat_of_int breakMinutes > rat_of_int maxBreakMinutes * (3 / 2));
          requiresReview =
            (hasUnendedBreak \<or> exceedsMaxBreakTime \<or> nan_greater lateClockIn 15
             \<or> nan_greater earlyClockOut 0 \<or> overtimeMinutes > 120)
      in \<lparr> totalMinutes = totalMinutes, breakMinutes = breakMinutes,
           netWorkMinutes = netWorkMinutes, regularMinutes = regularMinutes,
           overtimeMinutes = overtimeMinutes, segment1Minutes = segment1Minutes,
           segment2Minutes = segment2Minutes, splitBreakMinutes = splitBreakMinutes,
           earlyClockIn = earlyClockIn, lateClockIn = lateClockIn,
           earlyClockOut = earlyClockOut, lateClockOut = lateClockOut,
           hasUnendedBreak = hasUnendedBreak, exceedsMaxBreakTime = exceedsMaxBreakTime,
           requiresReview = requiresReview, breakDetails = breakDetails \<rparr>)"


section \<open>Attendance service (src/lib/attendance/attendance-service.ts)\<close>

text \<open>
  The messages of \<open>ClockResult\<close>: \<open>Msg_NotClockedIn\<close> is "not clocked in yet",
  \<open>Msg_Reason r\<close> the reason of the state machine, \<open>Msg_CannotClockOut\<close> the fallback
  "cannot clock out", \<open>Msg_ClockOutReview\<close> "clock-out succeeded, needs manager review"
  and \<open>Msg_ClockOutOk\<close> "clock-out succeeded".
\<close>

datatype Message =
  Msg_NotClockedIn | Msg_Reason Reason | Msg_CannotClockOut | Msg_ClockOutReview | Msg_ClockOutOk

record ClockResult =
  success :: bool
  message :: Message
  res_attendance :: "Attendance option"
  newState :: "ClockState option"

text \<open>\<open>attendance.clockIn!\<close> on a record without clock-in hands \<open>null\<close> to
  \<open>differenceInMinutes\<close>, whose \<open>start.getTime()\<close> throws.\<close>

datatype error = TypeError

text \<open>
  \<open>clockOut\<close> on the day's attendance row and schedule as \<open>getTodayAttendance\<close> loaded them.
  \<open>now\<close> is the clock read by \<open>clockOut\<close>, \<open>calcNow\<close> the clock read inside
  \<open>calculateWorkHours\<close>. The result carries the \<open>ClockResult\<close> and the attendance row as
  it is stored after the call (the audit-log row is not modelled).
\<close>

text \<open>The argument that \<open>clockOut\<close> builds for \<open>calculateWorkHours\<close>.\<close>

definition clockOutInput :: "Attendance \<Rightarrow> Date \<Rightarrow> Date \<Rightarrow> Schedule option \<Rightarrow> WorkHoursInput" where
  "clockOutInput attendance clockIn now schedule =
     \<lparr> in_clockIn = clockIn, in_clockOut = now,
       in_clockIn2 = att_clockIn2 attendance,
       in_clockOut2 = att_clockOut2 attendance,
       in_breaks = map (\<lambda>b. \<lparr> bi_startTime = brk_startTime b, bi_endTime = brk_endTime b,
                               bi_type = brk_type b \<rparr>) (att_breaks attendance),
       in_shiftType = map_option shiftType schedule \<rparr>"

definition clockOut ::
  "Attendance option \<Rightarrow> Schedule option \<Rightarrow> Date \<Rightarrow> Date \<Rightarrow> error + (ClockResult \<times> Attendance option)" where
  "clockOut attendanceOpt schedule now calcNow =
     (case attendanceOpt of
        None \<Rightarrow>
          Inr (\<lparr> success = False, message = Msg_NotClockedIn, res_attendance = None,
                 newState = None \<rparr>, attendanceOpt)
      | Some attendance \<Rightarrow>
          (let stateMachine = fromAttendance attendanceOpt schedule;
               can = canTransition stateMachine CLOCK_OUT
           in if \<not> allowed can
              then Inr (\<lparr> success = False,
                         message = (case reason can of Some r \<Rightarrow> Msg_Reason r
                                    | None \<Rightarrow> Msg_CannotClockOut),
                         res_attendance = None, newState = None \<rparr>, attendanceOpt)
              else
                (case att_clockIn attendance of
                   None \<Rightarrow> Inl TypeError
                 | Some clockIn \<Rightarrow>
                     (let workHours = calculateWorkHours calcNow
                                        (clockOutInput attendance clockIn now schedule);
                          status = (if requiresReview workHours
                                    then Status_PENDING_REVIEW else Status_CLOCKED_OUT);
                          updatedAttendance = attendance
                            \<lparr> att_clockOut := Some now, att_status := status,
                              att_totalMinutes := Some (totalMinutes workHours),
                              att_breakMinutes := Some (breakMinutes workHours),
                              att_netWorkMinutes := Some (netWorkMinutes workHours),
                              att_overtimeMinutes := Some (overtimeMinutes workHours) \<rparr>
                      in Inr (\<lparr> success = True,
                                 message = (if status = Status_PENDING_REVIEW
                                            then Msg_ClockOutReview else Msg_ClockOutOk),
                                 res_attendance = Some updatedAttendance,
                                 newState = Some CLOCKED_OUT \<rparr>, Some updatedAttendance)))))"


section \<open>Payroll calculator (src/lib/payroll/payroll-service.ts)\<close>

text \<open>
  A JavaScript number of the payroll code is an exact rational or \<open>NaN\<close> (\<open>None\<close>);
  the rounding error of IEEE doubles is not modelled. The divisors of the code are the
  constants 60, 30, 8, 100 and a month length, none of which is zero.
\<close>

type_synonym number = "rat option"

definition nan_op :: "(rat \<Rightarrow> rat \<Rightarrow> rat) \<Rightarrow> number \<Rightarrow> number \<Rightarrow> number" where
  "nan_op f a b =
     (case a of None \<Rightarrow> None | Some x \<Rightarrow> (case b of None \<Rightarrow> None | Some y \<Rightarrow> Some (f x y)))"

definition js_add :: "number \<Rightarrow> number \<Rightarrow> number" where
  "js_add = nan_op (+)"

definition js_sub :: "number \<Rightarrow> number \<Rightarrow> number" where
  "js_sub = nan_op (-)"

definition js_mul :: "number \<Rightarrow> number \<Rightarrow> number" where
  "js_mul = nan_op (*)"

definition js_div :: "number \<Rightarrow> number \<Rightarrow> number" where
  "js_div = nan_op (/)"

definition Math_min :: "number \<Rightarrow> number \<Rightarrow> number" where
  "Math_min = nan_op min"

definition Math_max :: "number \<Rightarrow> number \<Rightarrow> number" where
  "Math_max = nan_op max"

text \<open>\<open>Math.round\<close> rounds to the nearest integer, a half towards plus infinity.\<close>

definition Math_round :: "number \<Rightarrow> number" where
  "Math_round a = map_option (\<lambda>x. rat_of_int \<lfloor>x + 1 / 2\<rfloor>) a"

definition js_le :: "number \<Rightarrow> number \<Rightarrow> bool" where
  "js_le a b = (case (a, b) of (Some x, Some y) \<Rightarrow> x \<le> y | _ \<Rightarrow> False)"

definition num :: "int \<Rightarrow> number" where
  "num i = Some (rat_of_int i)"

subsection \<open>Calendar fields of a date\<close>

definition getDay :: "Date \<Rightarrow> int" where
  "getDay d = (d div 86400000 + 4) mod 7"

text \<open>Year, month (1 to 12) and day of the month of a day count from 1970-01-01, in the
  proleptic Gregorian calendar of \<open>Date\<close>.\<close>

definition civil_from_days :: "int \<Rightarrow> int \<times> int \<times> int" where
  "civil_from_days z0 =
     (let z = z0 + 719468;
          era = z div 146097;
          doe = z - era * 146097;
          yoe = (doe - doe div 1460 + doe div 36524 - doe div 146096) div 365;
          doy = doe - (365 * yoe + yoe div 4 - yoe div 100);
          mp = (5 * doy + 2) div 153;
          d = doy - (153 * mp + 2) div 5 + 1;
          m = (if mp < 10 then mp + 3 else mp - 9);
          y = yoe + era * 400 + (if m \<le> 2 then 1 else 0)
      in (y, m, d))"

definition getFullYear :: "Date \<Rightarrow> int" where
  "getFullYear d = fst (civil_from_days (d div 86400000))"

definition getMonth :: "Date \<Rightarrow> int" where
  "getMonth d = fst (snd (civil_from_days (d div 86400000))) - 1"

definition isLeapYear :: "int \<Rightarrow> bool" where
  "isLeapYear y = (y mod 4 = 0 \<and> (y mod 100 \<noteq> 0 \<or> y mod 400 = 0))"

text \<open>\<open>new Date(year, month + 1, 0).getDate()\<close> for a month index from 0 to 11: day 0 of
  the next month is the last day of this one.\<close>

definition lastDayOfMonth :: "int \<Rightarrow> int \<Rightarrow> int" where
  "lastDayOfMonth year month =
     (if month = 1 then (if isLeapYear year then 29 else 28)
      else if month = 3 \<or> month = 5 \<or> month = 8 \<or> month = 10 then 30 else 31)"

subsection \<open>Rates\<close>

definition WEEKDAY_FIRST_2_HOURS :: rat where
  "WEEKDAY_FIRST_2_HOURS = 134 / 100"

definition WEEKDAY_AFTER_2_HOURS :: rat where
  "WEEKDAY_AFTER_2_HOURS = 167 / 100"

definition HOLIDAY_RATE :: rat where
  "HOLIDAY_RATE = 2"

definition NIGHT_SHIFT_ALLOWANCE :: rat where
  "NIGHT_SHIFT_ALLOWANCE = 50"

subsection \<open>Helper methods\<close>

definition calculateOvertimePay :: "number \<Rightarrow> number \<Rightarrow> number" where
  "calculateOvertimePay hrs rate =
     (if js_le hrs (num 0) then num 0
      else (let first2Hours = Math_min hrs (num 2);
                afterHours = Math_max (num 0) (js_sub hrs (num 2))
            in js_add (js_mul (js_mul first2Hours rate) (Some WEEKDAY_FIRST_2_HOURS))
                      (js_mul (js_mul afterHours rate) (Some WEEKDAY_AFTER_2_HOURS))))"

definition calculateNightMinutes :: "Date \<Rightarrow> Date option \<Rightarrow> number" where
  "calculateNightMinutes clockIn clockOutOpt =
     (case clockOutOpt of
        None \<Rightarrow> num 0
      | Some clockOut1 \<Rightarrow>
          (let startHour = getHours clockIn;
               endHour = getHours clockOut1;
               nightMinutes1 =
                 (if startHour \<ge> 22 \<or> startHour < 6
                  then js_add (num 0)
                         (Math_min (num (60 - getMinutes clockIn))
                                   (js_div (num (clockOut1 - clockIn)) (num 60000)))
                  else num 0);
               nightMinutes2 =
                 (if endHour \<ge> 22 \<or> endHour < 6
                  then js_add nightMinutes1 (num (getMinutes clockOut1)) else nightMinutes1)
           in Math_max (num 0) nightMinutes2))"

text \<open>The payroll's own scheduled minutes: end minus start, plus a day when negative;
  breaks are not subtracted here.\<close>

definition getScheduledMinutes :: "ShiftType \<Rightarrow> number" where
  "getScheduledMinutes st =
     (let start = parseTimeString (startTime st);
          end = parseTimeString (endTime st);
          mins = nan_minus (minutesOfDay end) (minutesOfDay start)
      in map_option rat_of_int
           (if nan_less mins 0 then map_option (\<lambda>t. t + 24 * 60) mins else mins))"

subsection \<open>calculatePayroll\<close>

record PayrollDetail =
  d_date :: Date
  d_regularMinutes :: number
  d_overtimeMinutes :: number
  d_isHoliday :: bool
  d_nightMinutes :: number

record PayrollCalculation =
  userId :: string
  userName :: string
  employeeId :: string
  employmentType :: EmploymentType
  regularHours :: number
  overtimeHours :: number
  holidayHours :: number
  nightShiftHours :: number
  basePay :: number
  overtimePay :: number
  holidayPay :: number
  nightShiftPay :: number
  grossPay :: number
  workDays :: nat
  hourlyRate :: "rat option"
  monthlySalary :: "rat option"
  details :: "PayrollDetail list"

text \<open>The accumulators of the loop over one user's attendances.\<close>

record PayrollTotals =
  totalRegularMinutes :: number
  totalOvertimeMinutes :: number
  totalHolidayMinutes :: number
  totalNightMinutes :: number
  acc_details :: "PayrollDetail list"

definition isWeekend :: "Date \<Rightarrow> bool" where
  "isWeekend date = (let dayOfWeek = getDay date in dayOfWeek = 0 \<or> dayOfWeek = 6)"

text \<open>The body of the loop; \<open>continue\<close> leaves the accumulators as they are. The date of
  a detail row is kept as the date itself (the source formats it as an ISO day).\<close>

definition attendance_step :: "Attendance \<Rightarrow> PayrollTotals \<Rightarrow> PayrollTotals" where
  "attendance_step att acc =
     (case (att_clockIn att, att_netWorkMinutes att) of
        (Some clockIn, Some netMinutes) \<Rightarrow>
          if netMinutes = 0 then acc
          else
            (let nightMinutes = calculateNightMinutes clockIn (att_clockOut att)
             in if isWeekend (att_date att)
                then acc \<lparr> totalHolidayMinutes := js_add (totalHolidayMinutes acc) (num netMinutes),
                           acc_details := acc_details acc @
                             [\<lparr> d_date = att_date att, d_regularMinutes = num 0,
                                d_overtimeMinutes = num 0, d_isHoliday = True,
                                d_nightMinutes = nightMinutes \<rparr>] \<rparr>
                else
                  (let scheduledMinutes =
                         (case att_schedule att of
                            Some sch \<Rightarrow> getScheduledMinutes (shiftType sch)
                          | None \<Rightarrow> num 480);
                       regularMinutes = Math_min (num netMinutes) scheduledMinutes;
                       overtimeMinutes = Math_max (num 0) (js_sub (num netMinutes) scheduledMinutes)
                   in acc \<lparr> totalRegularMinutes := js_add (totalRegularMinutes acc) regularMinutes,
                            totalOvertimeMinutes := js_add (totalOvertimeMinutes acc) overtimeMinutes,
                            totalNightMinutes := js_add (totalNightMinutes acc) nightMinutes,
                            acc_details := acc_details acc @
                              [\<lparr> d_date = att_date att, d_regularMinutes = regularMinutes,
                                 d_overtimeMinutes = overtimeMinutes, d_isHoliday = False,
                                 d_nightMinutes = nightMinutes \<rparr>] \<rparr>))
      | _ \<Rightarrow> acc)"

fun attendance_loop :: "Attendance list \<Rightarrow> PayrollTotals \<Rightarrow> PayrollTotals" where
  "attendance_loop [] acc = acc"
| "attendance_loop (att # rest) acc = attendance_loop rest (attendance_step att acc)"

definition initialTotals :: PayrollTotals where
  "initialTotals =
     \<lparr> totalRegularMinutes = num 0, totalOvertimeMinutes = num 0, totalHolidayMinutes = num 0,
       totalNightMinutes = num 0, acc_details = [] \<rparr>"

text \<open>The values read from the user row. A \<open>Decimal\<close> object is truthy whatever its
  value; the number \<open>monthlySalary\<close> is falsy when it is 0.\<close>

definition isFullTime_of :: "User \<Rightarrow> bool" where
  "isFullTime_of user =
     ((case usr_employmentType user of None \<Rightarrow> PART_TIME | Some t \<Rightarrow> t) = FULL_TIME)"

definition hourlyRate_of :: "User \<Rightarrow> rat" where
  "hourlyRate_of user = (case usr_hourlyRate user of Some r \<Rightarrow> r | None \<Rightarrow> 183)"

definition salaried :: "User \<Rightarrow> bool" where
  "salaried user =
     (isFullTime_of user \<and> (case usr_monthlySalary user of None \<Rightarrow> False | Some s \<Rightarrow> s \<noteq> 0))"

definition effectiveHourlyRate_of :: "User \<Rightarrow> number" where
  "effectiveHourlyRate_of user =
     (if salaried user then js_div (js_div (usr_monthlySalary user) (num 30)) (num 8)
      else Some (hourlyRate_of user))"

definition periodDays_of :: "Date \<Rightarrow> Date \<Rightarrow> int" where
  "periodDays_of periodStart periodEnd =
     \<lceil>rat_of_int (periodEnd - periodStart) / (1000 * 60 * 60 * 24)\<rceil> + 1"

definition monthDays_of :: "Date \<Rightarrow> int" where
  "monthDays_of periodStart = lastDayOfMonth (getFullYear periodStart) (getMonth periodStart)"

text \<open>The four pay amounts before they are rounded for the result.\<close>

definition basePay_of :: "Date \<Rightarrow> Date \<Rightarrow> User \<Rightarrow> PayrollTotals \<Rightarrow> number" where
  "basePay_of periodStart periodEnd user tot =
     (if salaried user
      then (let periodDays = periodDays_of periodStart periodEnd;
                monthDays = monthDays_of periodStart
            in js_mul (js_div (usr_monthlySalary user) (num monthDays))
                      (Math_min (num periodDays) (num monthDays)))
      else js_mul (js_div (totalRegularMinutes tot) (num 60)) (Some (hourlyRate_of user)))"

definition overtimePay_of :: "User \<Rightarrow> PayrollTotals \<Rightarrow> number" where
  "overtimePay_of user tot =
     calculateOvertimePay (js_div (totalOvertimeMinutes tot) (num 60)) (effectiveHourlyRate_of user)"

definition holidayPay_of :: "User \<Rightarrow> PayrollTotals \<Rightarrow> number" where
  "holidayPay_of user tot =
     js_mul (js_mul (js_div (totalHolidayMinutes tot) (num 60)) (effectiveHourlyRate_of user))
            (Some HOLIDAY_RATE)"

definition nightShiftPay_of :: "PayrollTotals \<Rightarrow> number" where
  "nightShiftPay_of tot =
     js_mul (js_div (totalNightMinutes tot) (num 60)) (Some NIGHT_SHIFT_ALLOWANCE)"

definition round2 :: "number \<Rightarrow> number" where
  "round2 x = js_div (Math_round (js_mul x (num 100))) (num 100)"

text \<open>The body of the loop over the users: the line item of one user, from the user row
  of the first attendance and all the user's attendances.\<close>

definition payrollLine ::
  "Date \<Rightarrow> Date \<Rightarrow> string \<Rightarrow> User \<Rightarrow> Attendance list \<Rightarrow> PayrollCalculation" where
  "payrollLine periodStart periodEnd uid user userAtts =
     (let tot = attendance_loop userAtts initialTotals;
          basePay0 = basePay_of periodStart periodEnd user tot;
          overtimePay0 = overtimePay_of user tot;
          holidayPay0 = holidayPay_of user tot;
          nightShiftPay0 = nightShiftPay_of tot
      in \<lparr> userId = uid, userName = usr_name user, employeeId = usr_employeeId user,
           employmentType = (case usr_employmentType user of None \<Rightarrow> PART_TIME | Some t \<Rightarrow> t),
           regularHours = round2 (js_div (totalRegularMinutes tot) (num 60)),
           overtimeHours = round2 (js_div (totalOvertimeMinutes tot) (num 60)),
           holidayHours = round2 (js_div (totalHolidayMinutes tot) (num 60)),
           nightShiftHours = round2 (js_div (totalNightMinutes tot) (num 60)),
           basePay = Math_round basePay0,
           overtimePay = Math_round overtimePay0,
           holidayPay = Math_round holidayPay0,
           nightShiftPay = Math_round nightShiftPay0,
           grossPay = Math_round (js_add (js_add (js_add basePay0 overtimePay0) holidayPay0)
                                         nightShiftPay0),
           workDays = length userAtts,
           hourlyRate = (if isFullTime_of user then None else Some (hourlyRate_of user)),
           monthlySalary = (if isFullTime_of user then usr_monthlySalary user else None),
           details = acc_details tot \<rparr>)"

text \<open>Grouping by user keeps the order in which the users first appear, as a \<open>Map\<close>
  does.\<close>

fun group_insert :: "Attendance \<Rightarrow> (string \<times> Attendance list) list \<Rightarrow> (string \<times> Attendance list) list" where
  "group_insert att [] = [(att_userId att, [att])]"
| "group_insert att ((k, existing) # groups) =
     (if k = att_userId att then (k, existing @ [att]) # groups
      else (k, existing) # group_insert att groups)"

definition userAttendances :: "Attendance list \<Rightarrow> (string \<times> Attendance list) list" where
  "userAttendances attendances = foldl (\<lambda>groups att. group_insert att groups) [] attendances"

text \<open>\<open>calculatePayroll\<close> on the rows that the attendance query returned. A group is never
  empty; \<open>userAtts[0]\<close> of an empty one would throw.\<close>

definition calculatePayroll :: "Date \<Rightarrow> Date \<Rightarrow> Attendance list \<Rightarrow> error + PayrollCalculation list" where
  "calculatePayroll periodStart periodEnd attendances =
     (if \<exists>g \<in> set (userAttendances attendances). snd g = [] then Inl TypeError
      else Inr (map (\<lambda>(uid, userAtts).
                       payrollLine periodStart periodEnd uid (att_user (hd userAtts)) userAtts)
                    (userAttendances attendances)))"


section \<open>Predicates and sums used in the statements\<close>

text \<open>An attendance row has an open break: \<open>breaks.find((b) => !b.endTime)\<close> finds one.\<close>

definition hasOpenBreak :: "Attendance \<Rightarrow> bool" where
  "hasOpenBreak a = (find (\<lambda>b. brk_endTime b = None) (att_breaks a) \<noteq> None)"


text \<open>The duration that the calculator gives one break.\<close>

definition breakDurationAt :: "Date \<Rightarrow> BreakInput \<Rightarrow> int" where
  "breakDurationAt now b =
     differenceInMinutes (case bi_endTime b of Some e \<Rightarrow> e | None \<Rightarrow> now) (bi_startTime b)"







section \<open>Example data\<close>

text \<open>Wall-clock instants of December 2024: the 4th is a Wednesday, the 5th a Thursday,
  the 7th a Saturday. \<open>clock day h m\<close> is \<open>h:m\<close> on the day that starts at \<open>day\<close>.\<close>

definition wed_2024_12_04 :: Date where
  "wed_2024_12_04 = 1733270400000"

definition thu_2024_12_05 :: Date where
  "thu_2024_12_05 = 1733356800000"

definition sat_2024_12_07 :: Date where
  "sat_2024_12_07 = 1733529600000"

definition jun_01_2024 :: Date where
  "jun_01_2024 = 1717200000000"

definition jun_30_2024 :: Date where
  "jun_30_2024 = 1719705600000"

definition clock :: "Date \<Rightarrow> int \<Rightarrow> int \<Rightarrow> Date" where
  "clock day h m = day + h * 3600000 + m * 60000"

definition partTimer :: User where
  "partTimer =
     \<lparr> usr_id = ''u1'', usr_name = ''Lin'', usr_employeeId = ''E001'',
       usr_employmentType = Some PART_TIME, usr_hourlyRate = Some 200,
       usr_monthlySalary = None \<rparr>"



definition dayShift :: ShiftType where
  "dayShift =
     \<lparr> startTime = ''09:00'', endTime = ''18:00'', breakDuration = 60, maxBreakCount = 3,
       isSplit = False, splitBreakStart = None, splitBreakEnd = None \<rparr>"

definition splitShift :: ShiftType where
  "splitShift =
     \<lparr> startTime = ''10:00'', endTime = ''21:00'', breakDuration = 30, maxBreakCount = 4,
       isSplit = True, splitBreakStart = Some ''14:00'', splitBreakEnd = Some ''17:00'' \<rparr>"

definition openMeal :: Break where
  "openMeal =
     \<lparr> brk_id = ''b1'', brk_startTime = clock wed_2024_12_04 12 0, brk_endTime = None,
       brk_type = MEAL \<rparr>"

text \<open>The day of the review scenario: clocked in at 09:00, on a meal break since 12:00.\<close>

definition onMealBreak :: Attendance where
  "onMealBreak =
     \<lparr> att_id = ''a1'', att_userId = ''u1'', att_user = partTimer, att_date = wed_2024_12_04,
       att_status = Status_ON_BREAK, att_clockIn = Some (clock wed_2024_12_04 9 0),
       att_clockOut = None, att_clockIn2 = None, att_clockOut2 = None,
       att_totalMinutes = None, att_breakMinutes = None, att_netWorkMinutes = None,
       att_overtimeMinutes = None, att_breaks = [openMeal], att_schedule = None \<rparr>"

definition daySchedule :: Schedule where
  "daySchedule = \<lparr> sched_id = ''s1'', shiftType = dayShift \<rparr>"

definition splitSchedule :: Schedule where
  "splitSchedule = \<lparr> sched_id = ''s2'', shiftType = splitShift \<rparr>"

text \<open>The same day with the status \<open>CLOCKED_IN\<close> although the meal break is open.\<close>

definition workingWithOpenBreak :: Attendance where
  "workingWithOpenBreak = onMealBreak \<lparr> att_status := Status_CLOCKED_IN \<rparr>"

text \<open>A split-shift day whose first segment ended at 14:00 and was routed to review,
  still carrying the open meal break.\<close>

definition reviewedSplitDay :: Attendance where
  "reviewedSplitDay =
     onMealBreak \<lparr> att_status := Status_PENDING_REVIEW,
                   att_clockOut := Some (clock wed_2024_12_04 14 0) \<rparr>"

text \<open>The round trip of the specification: in at 09:00, meal break 12:00 to 12:30, out at
  18:00, on the shift 09:00 to 18:00 with a 60-minute break.\<close>

definition roundTrip :: WorkHoursInput where
  "roundTrip =
     \<lparr> in_clockIn = clock wed_2024_12_04 9 0, in_clockOut = clock wed_2024_12_04 18 0,
       in_clockIn2 = None, in_clockOut2 = None,
       in_breaks = [\<lparr> bi_startTime = clock wed_2024_12_04 12 0,
                       bi_endTime = Some (clock wed_2024_12_04 12 30), bi_type = MEAL \<rparr>],
       in_shiftType = Some dayShift \<rparr>"

text \<open>Half an hour of presence, 09:00 to 09:30, with a break recorded from 09:10 to
  10:10.\<close>

definition longBreak :: WorkHoursInput where
  "longBreak =
     \<lparr> in_clockIn = clock wed_2024_12_04 9 0, in_clockOut = clock wed_2024_12_04 9 30,
       in_clockIn2 = None, in_clockOut2 = None,
       in_breaks = [\<lparr> bi_startTime = clock wed_2024_12_04 9 10,
                       bi_endTime = Some (clock wed_2024_12_04 10 10), bi_type = REST \<rparr>],
       in_shiftType = Some dayShift \<rparr>"


section \<open>Verified properties\<close>

subsection \<open>Helper lemmas: breaks, guards, example dates\<close>

lemma breaks_loop_flag:
  "fst (snd (breaks_loop now bs (m, h, d))) = (h \<or> (\<exists>b \<in> set bs. bi_endTime b = None))"
  by (induction bs arbitrary: m h d) (auto simp: Let_def split: option.splits)

lemma breaks_loop_minutes:
  "fst (breaks_loop now bs (m, h, d)) = m + sum_list (map (breakDurationAt now) bs)"
  by (induction bs arbitrary: m h d) (auto simp: Let_def breakDurationAt_def split: option.splits)

lemma breakMinutes_sum:
  "breakMinutes (calculateWorkHours now input) = sum_list (map (breakDurationAt now) (in_breaks input))"
proof -
  obtain m h d where e: "breaks_loop now (in_breaks input) (0, False, []) = (m, h, d)"
    by (cases "breaks_loop now (in_breaks input) (0, False, [])") auto
  have "m = sum_list (map (breakDurationAt now) (in_breaks input))"
    using breaks_loop_minutes [of now "in_breaks input" 0 False "[]"] e by simp
  then show ?thesis
    by (simp add: calculateWorkHours_def Let_def e split: prod.splits)
qed

lemma hasUnendedBreak_iff:
  "hasUnendedBreak (calculateWorkHours now input) = (\<exists>b \<in> set (in_breaks input). bi_endTime b = None)"
proof -
  obtain m h d where e: "breaks_loop now (in_breaks input) (0, False, []) = (m, h, d)"
    by (cases "breaks_loop now (in_breaks input) (0, False, [])") auto
  have "h = (\<exists>b \<in> set (in_breaks input). bi_endTime b = None)"
    using breaks_loop_flag [of now "in_breaks input" 0 False "[]"] e by simp
  then show ?thesis
    by (simp add: calculateWorkHours_def Let_def e split: prod.splits)
qed

lemma requiresReview_unended:
  "hasUnendedBreak (calculateWorkHours now input) \<Longrightarrow> requiresReview (calculateWorkHours now input)"
  by (simp add: calculateWorkHours_def Let_def split: prod.splits)

lemma open_break_input:
  "hasOpenBreak a \<Longrightarrow> \<exists>b \<in> set (in_breaks (clockOutInput a ci now sched)). bi_endTime b = None"
  by (auto simp: hasOpenBreak_def clockOutInput_def find_None_iff)

lemma denied_ON_BREAK:
  "att_status a = Status_ON_BREAK \<Longrightarrow>
   canTransition (fromAttendance (Some a) sched) CLOCK_OUT
     = \<lparr> allowed = False, reason = Some (CannotFrom ON_BREAK CLOCK_OUT) \<rparr>"
  by (simp add: canTransition_def fromAttendance_def find_transition_def transitions_def)

lemma denied_WORKING:
  "att_status a = Status_CLOCKED_IN \<Longrightarrow> hasOpenBreak a \<Longrightarrow>
   canTransition (fromAttendance (Some a) sched) CLOCK_OUT
     = \<lparr> allowed = False, reason = Some EndBreakFirst \<rparr>"
  by (auto simp add: canTransition_def fromAttendance_def find_transition_def transitions_def
        hasOpenBreak_def split: option.splits)

lemma find_transition_None:
  "find_transition m a = None \<longleftrightarrow>
     \<not> (\<exists>t \<in> set transitions. tr_action t = a \<and> sm_state m \<in> set (tr_from t))"
  by (auto simp: find_transition_def find_None_iff)

lemma example_dates:
  "getDay wed_2024_12_04 = 3 \<and> getDay thu_2024_12_05 = 4 \<and> getDay sat_2024_12_07 = 6
   \<and> getFullYear jun_01_2024 = 2024 \<and> getMonth jun_01_2024 = 5
   \<and> jun_30_2024 - jun_01_2024 = 29 * 86400000"
  by code_simp

subsection \<open>Helper lemmas: arithmetic with NaN\<close>

lemma nan_op_simps [simp]:
  "nan_op f None b = None" "nan_op f a None = None" "nan_op f (Some x) (Some y) = Some (f x y)"
  by (simp_all add: nan_op_def split: option.splits)


lemma js_add_zero [simp]: "js_add a (num 0) = a" "js_add (num 0) a = a"
  by (cases a; simp add: js_add_def num_def)+


subsection \<open>Helper lemmas: the loop over the attendances\<close>







lemma group_insert_nonempty:
  "\<forall>g \<in> set groups. snd g \<noteq> [] \<Longrightarrow> \<forall>g \<in> set (group_insert att groups). snd g \<noteq> []"
proof (induction groups)
  case Nil
  then show ?case by simp
next
  case (Cons p groups)
  obtain k existing where p: "p = (k, existing)" by (cases p)
  from Cons.prems have ne: "existing \<noteq> []" and rest: "\<forall>g \<in> set groups. snd g \<noteq> []"
    by (simp_all add: p)
  from rest have ih: "\<forall>g \<in> set (group_insert att groups). snd g \<noteq> []" by (rule Cons.IH)
  show ?case
  proof (cases "k = att_userId att")
    case True
    then show ?thesis using rest by (simp add: p)
  next
    case False
    then show ?thesis using ne ih by (simp add: p)
  qed
qed

lemma foldl_group_insert_nonempty:
  "\<forall>g \<in> set groups. snd g \<noteq> [] \<Longrightarrow>
   \<forall>g \<in> set (foldl (\<lambda>groups att. group_insert att groups) groups atts). snd g \<noteq> []"
proof (induction atts arbitrary: groups)
  case Nil
  then show ?case by simp
next
  case (Cons a atts)
  have "\<forall>g \<in> set (group_insert a groups). snd g \<noteq> []"
    using Cons.prems by (rule group_insert_nonempty)
  then have "\<forall>g \<in> set (foldl (\<lambda>groups att. group_insert att groups)
                           (group_insert a groups) atts). snd g \<noteq> []"
    by (rule Cons.IH)
  then show ?case by simp
qed

text \<open>\<open>calculatePayroll\<close> always returns, and each item it returns is the line of one
  user's group of attendances.\<close>

lemma calculatePayroll_lines:
  "\<exists>lines. calculatePayroll ps pe atts = Inr lines
     \<and> (\<forall>c \<in> set lines. \<exists>uid user userAtts. c = payrollLine ps pe uid user userAtts)"
proof -
  have "\<forall>g \<in> set (userAttendances atts). snd g \<noteq> []"
    unfolding userAttendances_def by (rule foldl_group_insert_nonempty) simp
  then show ?thesis
    by (auto simp: calculatePayroll_def)
qed


lemma Math_round_Some [simp]: "Math_round (Some x) = Some (rat_of_int \<lfloor>x + 1 / 2\<rfloor>)"
  by (simp add: Math_round_def)










subsection \<open>Clock-out with an open break\<close>

text \<open>
  Counterexample to C1 as stated: on the day of the review scenario (clocked in at 09:00,
  meal break open since 12:00, status \<open>ON_BREAK\<close>) \<open>clockOut\<close> at 18:00 does not succeed.
  The state machine has no \<open>CLOCK_OUT\<close> transition from \<open>ON_BREAK\<close>; the call returns
  \<open>success = false\<close> with that reason and the stored row is unchanged.
\<close>

theorem clockOut_open_break_denied_example:
  "hasOpenBreak onMealBreak
   \<and> att_status onMealBreak = Status_ON_BREAK
   \<and> clockOut (Some onMealBreak) (Some daySchedule)
        (clock wed_2024_12_04 18 0) (clock wed_2024_12_04 18 0)
      = Inr (\<lparr> success = False, message = Msg_Reason (CannotFrom ON_BREAK CLOCK_OUT),
               res_attendance = None, newState = None \<rparr>, Some onMealBreak)"
  by (simp add: hasOpenBreak_def onMealBreak_def openMeal_def clockOut_def canTransition_def
        fromAttendance_def find_transition_def transitions_def)


text \<open>
  C1, amended: for an attendance row with an open break, \<open>clockOut\<close> is refused when the
  row's status is \<open>ON_BREAK\<close> (no transition) and when it is \<open>CLOCKED_IN\<close> (the guard
  "end the break before clocking out"); the stored row stays as it was. Whenever
  \<open>clockOut\<close> does succeed on a row with an open break, the computed work hours have
  \<open>hasUnendedBreak\<close> and \<open>requiresReview\<close> set and the stored status is
  \<open>PENDING_REVIEW\<close>, not \<open>CLOCKED_OUT\<close>.
\<close>

theorem clockOut_open_break:
  assumes "hasOpenBreak a"
  shows "(att_status a = Status_ON_BREAK \<longrightarrow>
            clockOut (Some a) sched now calcNow
              = Inr (\<lparr> success = False, message = Msg_Reason (CannotFrom ON_BREAK CLOCK_OUT),
                       res_attendance = None, newState = None \<rparr>, Some a))
       \<and> (att_status a = Status_CLOCKED_IN \<longrightarrow>
            clockOut (Some a) sched now calcNow
              = Inr (\<lparr> success = False, message = Msg_Reason EndBreakFirst,
                       res_attendance = None, newState = None \<rparr>, Some a))
       \<and> (\<forall>r stored. clockOut (Some a) sched now calcNow = Inr (r, stored) \<and> success r \<longrightarrow>
            (\<exists>clockIn a'. att_clockIn a = Some clockIn \<and> stored = Some a'
               \<and> res_attendance r = Some a'
               \<and> hasUnendedBreak (calculateWorkHours calcNow (clockOutInput a clockIn now sched))
               \<and> requiresReview (calculateWorkHours calcNow (clockOutInput a clockIn now sched))
               \<and> att_status a' = Status_PENDING_REVIEW \<and> message r = Msg_ClockOutReview))"
proof (intro conjI impI allI)
  assume "att_status a = Status_ON_BREAK"
  then show "clockOut (Some a) sched now calcNow
              = Inr (\<lparr> success = False, message = Msg_Reason (CannotFrom ON_BREAK CLOCK_OUT),
                       res_attendance = None, newState = None \<rparr>, Some a)"
    by (simp add: clockOut_def denied_ON_BREAK)
next
  assume "att_status a = Status_CLOCKED_IN"
  then show "clockOut (Some a) sched now calcNow
              = Inr (\<lparr> success = False, message = Msg_Reason EndBreakFirst,
                       res_attendance = None, newState = None \<rparr>, Some a)"
    using assms by (simp add: clockOut_def denied_WORKING)
next
  fix r stored
  assume h: "clockOut (Some a) sched now calcNow = Inr (r, stored) \<and> success r"
  then obtain clockIn where ci: "att_clockIn a = Some clockIn"
    by (cases "att_clockIn a") (auto simp: clockOut_def Let_def split: if_splits)
  let ?w = "calculateWorkHours calcNow (clockOutInput a clockIn now sched)"
  have u: "hasUnendedBreak ?w"
    using assms open_break_input [of a clockIn now sched] by (simp add: hasUnendedBreak_iff)
  then have rr: "requiresReview ?w" by (rule requiresReview_unended)
  from h ci rr u
  show "\<exists>clockIn a'. att_clockIn a = Some clockIn \<and> stored = Some a'
               \<and> res_attendance r = Some a'
               \<and> hasUnendedBreak (calculateWorkHours calcNow (clockOutInput a clockIn now sched))
               \<and> requiresReview (calculateWorkHours calcNow (clockOutInput a clockIn now sched))
               \<and> att_status a' = Status_PENDING_REVIEW \<and> message r = Msg_ClockOutReview"
    by (auto simp: clockOut_def Let_def split: if_splits)
qed


theorem clockOut_open_break_witness:
  "hasOpenBreak onMealBreak \<and> att_status onMealBreak = Status_ON_BREAK
   \<and> clockOut (Some onMealBreak) (Some daySchedule)
         (clock wed_2024_12_04 18 0) (clock wed_2024_12_04 18 0)
       = Inr (\<lparr> success = False, message = Msg_Reason (CannotFrom ON_BREAK CLOCK_OUT),
                res_attendance = None, newState = None \<rparr>, Some onMealBreak)
   \<and> hasOpenBreak workingWithOpenBreak \<and> att_status workingWithOpenBreak = Status_CLOCKED_IN
   \<and> clockOut (Some workingWithOpenBreak) (Some daySchedule)
         (clock wed_2024_12_04 18 0) (clock wed_2024_12_04 18 0)
       = Inr (\<lparr> success = False, message = Msg_Reason EndBreakFirst,
                res_attendance = None, newState = None \<rparr>, Some workingWithOpenBreak)
   \<and> hasOpenBreak reviewedSplitDay
   \<and> (case clockOut (Some reviewedSplitDay) (Some splitSchedule)
               (clock wed_2024_12_04 21 0) (clock wed_2024_12_04 21 0) of
         Inl e \<Rightarrow> False
       | Inr (r, stored) \<Rightarrow>
           success r \<and> message r = Msg_ClockOutReview
           \<and> map_option att_status stored = Some Status_PENDING_REVIEW)"
proof -
  have o1: "hasOpenBreak onMealBreak" by code_simp
  have s1: "att_status onMealBreak = Status_ON_BREAK" by code_simp
  have o2: "hasOpenBreak workingWithOpenBreak" by code_simp
  have s2: "att_status workingWithOpenBreak = Status_CLOCKED_IN" by code_simp
  have o3: "hasOpenBreak reviewedSplitDay" by code_simp
  obtain r stored where rs:
    "clockOut (Some reviewedSplitDay) (Some splitSchedule)
       (clock wed_2024_12_04 21 0) (clock wed_2024_12_04 21 0) = Inr (r, stored)"
    and ok: "success r"
  proof -
    have "case clockOut (Some reviewedSplitDay) (Some splitSchedule)
               (clock wed_2024_12_04 21 0) (clock wed_2024_12_04 21 0) of
            Inl e \<Rightarrow> False | Inr (r, stored) \<Rightarrow> success r"
      by code_simp
    then show ?thesis using that by (auto split: sum.splits)
  qed
  note t1 = clockOut_open_break [OF o1, of "Some daySchedule" "clock wed_2024_12_04 18 0"
      "clock wed_2024_12_04 18 0"]
  note t2 = clockOut_open_break [OF o2, of "Some daySchedule" "clock wed_2024_12_04 18 0"
      "clock wed_2024_12_04 18 0"]
  note t3 = clockOut_open_break [OF o3, of "Some splitSchedule" "clock wed_2024_12_04 21 0"
      "clock wed_2024_12_04 21 0"]
  have c1: "clockOut (Some onMealBreak) (Some daySchedule)
         (clock wed_2024_12_04 18 0) (clock wed_2024_12_04 18 0)
       = Inr (\<lparr> success = False, message = Msg_Reason (CannotFrom ON_BREAK CLOCK_OUT),
                res_attendance = None, newState = None \<rparr>, Some onMealBreak)"
    using t1 s1 by blast
  have c2: "clockOut (Some workingWithOpenBreak) (Some daySchedule)
         (clock wed_2024_12_04 18 0) (clock wed_2024_12_04 18 0)
       = Inr (\<lparr> success = False, message = Msg_Reason EndBreakFirst,
                res_attendance = None, newState = None \<rparr>, Some workingWithOpenBreak)"
    using t2 s2 by blast
  have "\<exists>clockIn a'. att_clockIn reviewedSplitDay = Some clockIn \<and> stored = Some a'
          \<and> res_attendance r = Some a'
          \<and> hasUnendedBreak (calculateWorkHours (clock wed_2024_12_04 21 0)
                (clockOutInput reviewedSplitDay clockIn (clock wed_2024_12_04 21 0)
                   (Some splitSchedule)))
          \<and> requiresReview (calculateWorkHours (clock wed_2024_12_04 21 0)
                (clockOutInput reviewedSplitDay clockIn (clock wed_2024_12_04 21 0)
                   (Some splitSchedule)))
          \<and> att_status a' = Status_PENDING_REVIEW \<and> message r = Msg_ClockOutReview"
    using t3 rs ok by blast
  then have c3: "success r \<and> message r = Msg_ClockOutReview
      \<and> map_option att_status stored = Some Status_PENDING_REVIEW"
    using ok by auto
  show ?thesis
    using o1 s1 c1 o2 s2 c2 o3 c3 by (simp add: rs)
qed

subsection \<open>Work-hours invariants\<close>

text \<open>
  C2: for every input and every clock value, the result of \<open>calculateWorkHours\<close> has
  \<open>netWorkMinutes = totalMinutes - breakMinutes\<close>.
\<close>

theorem netWorkMinutes_is_total_minus_break:
  "netWorkMinutes (calculateWorkHours now input)
     = totalMinutes (calculateWorkHours now input) - breakMinutes (calculateWorkHours now input)"
  by (simp add: calculateWorkHours_def Let_def split: prod.splits)

text \<open>
  C3: whenever a shift type is supplied, \<open>regularMinutes + overtimeMinutes =
  netWorkMinutes\<close>, whatever the timestamps, the breaks and the shift's time strings.
\<close>

theorem regular_plus_overtime_is_net:
  assumes "in_shiftType input = Some st"
  shows "regularMinutes (calculateWorkHours now input)
           + overtimeMinutes (calculateWorkHours now input)
         = netWorkMinutes (calculateWorkHours now input)"
  using assms
  by (simp add: calculateWorkHours_def Let_def split: prod.splits option.splits if_splits)

theorem regular_plus_overtime_is_net_witness:
  "in_shiftType roundTrip = Some dayShift
   \<and> regularMinutes (calculateWorkHours 0 roundTrip) = 480
   \<and> overtimeMinutes (calculateWorkHours 0 roundTrip) = 30
   \<and> netWorkMinutes (calculateWorkHours 0 roundTrip) = 510"
proof -
  have h: "in_shiftType roundTrip = Some dayShift" by (simp add: roundTrip_def)
  have v: "regularMinutes (calculateWorkHours 0 roundTrip) = 480
           \<and> netWorkMinutes (calculateWorkHours 0 roundTrip) = 510"
    by code_simp
  show ?thesis
    using h v regular_plus_overtime_is_net [OF h, of 0] by simp
qed

text \<open>
  C10: \<open>calculateWorkHours\<close> does not clamp at zero. \<open>breakMinutes\<close> is the sum of the
  break durations; when it exceeds \<open>totalMinutes\<close>, \<open>netWorkMinutes\<close> is negative, and
  with a shift whose scheduled minutes are at least \<open>netWorkMinutes\<close>, \<open>regularMinutes\<close>
  is that same negative number and \<open>overtimeMinutes\<close> is 0.
\<close>

theorem no_clamping_at_zero:
  assumes "totalMinutes (calculateWorkHours now input) < breakMinutes (calculateWorkHours now input)"
  shows "breakMinutes (calculateWorkHours now input)
           = sum_list (map (breakDurationAt now) (in_breaks input))
       \<and> netWorkMinutes (calculateWorkHours now input) < 0
       \<and> (\<forall>st s. in_shiftType input = Some st \<and> calculateScheduledMinutes st = Some s
                  \<and> netWorkMinutes (calculateWorkHours now input) \<le> s
             \<longrightarrow> regularMinutes (calculateWorkHours now input)
                   = netWorkMinutes (calculateWorkHours now input)
                 \<and> regularMinutes (calculateWorkHours now input) < 0
                 \<and> overtimeMinutes (calculateWorkHours now input) = 0)"
proof (intro conjI allI impI)
  show "breakMinutes (calculateWorkHours now input)
           = sum_list (map (breakDurationAt now) (in_breaks input))"
    by (rule breakMinutes_sum)
  show neg: "netWorkMinutes (calculateWorkHours now input) < 0"
    using assms by (simp add: calculateWorkHours_def Let_def split: prod.splits)
  fix st s
  assume h: "in_shiftType input = Some st \<and> calculateScheduledMinutes st = Some s
             \<and> netWorkMinutes (calculateWorkHours now input) \<le> s"
  then show r: "regularMinutes (calculateWorkHours now input)
                  = netWorkMinutes (calculateWorkHours now input)"
    by (auto simp: calculateWorkHours_def Let_def split: prod.splits)
  from r neg show "regularMinutes (calculateWorkHours now input) < 0" by simp
  from h show "overtimeMinutes (calculateWorkHours now input) = 0"
    by (auto simp: calculateWorkHours_def Let_def split: prod.splits)
qed

theorem no_clamping_at_zero_witness:
  "totalMinutes (calculateWorkHours 0 longBreak) = 30
   \<and> breakMinutes (calculateWorkHours 0 longBreak) = 60
   \<and> in_shiftType longBreak = Some dayShift \<and> calculateScheduledMinutes dayShift = Some 480
   \<and> netWorkMinutes (calculateWorkHours 0 longBreak) = - 30
   \<and> regularMinutes (calculateWorkHours 0 longBreak) = - 30
   \<and> overtimeMinutes (calculateWorkHours 0 longBreak) = 0"
proof -
  have v: "totalMinutes (calculateWorkHours 0 longBreak) = 30
           \<and> breakMinutes (calculateWorkHours 0 longBreak) = 60
           \<and> netWorkMinutes (calculateWorkHours 0 longBreak) = - 30"
    by code_simp
  have sh: "in_shiftType longBreak = Some dayShift" by (simp add: longBreak_def)
  have sm: "calculateScheduledMinutes dayShift = Some 480" by code_simp
  have lt: "totalMinutes (calculateWorkHours 0 longBreak)
              < breakMinutes (calculateWorkHours 0 longBreak)"
    using v by simp
  have le: "netWorkMinutes (calculateWorkHours 0 longBreak) \<le> 480" using v by simp
  have "regularMinutes (calculateWorkHours 0 longBreak)
          = netWorkMinutes (calculateWorkHours 0 longBreak)
        \<and> regularMinutes (calculateWorkHours 0 longBreak) < 0
        \<and> overtimeMinutes (calculateWorkHours 0 longBreak) = 0"
    using no_clamping_at_zero [OF lt] sh sm le by blast
  with v sh sm show ?thesis by simp
qed

subsection \<open>State machine\<close>

text \<open>
  C4: for a state and an action without an entry in the transition table,
  \<open>canTransition\<close> returns \<open>allowed = false\<close> with a reason (the function is total, so
  nothing is thrown); from \<open>WORKING\<close>, \<open>CLOCK_IN\<close> is refused in every context.
\<close>

theorem canTransition_total_on_missing_entries:
  "(\<not> (\<exists>t \<in> set transitions. tr_action t = a \<and> s \<in> set (tr_from t)) \<longrightarrow>
      canTransition \<lparr> sm_state = s, sm_context = ctx \<rparr> a
        = \<lparr> allowed = False, reason = Some (CannotFrom s a) \<rparr>)
   \<and> canTransition \<lparr> sm_state = WORKING, sm_context = ctx \<rparr> CLOCK_IN
        = \<lparr> allowed = False, reason = Some (CannotFrom WORKING CLOCK_IN) \<rparr>"
proof -
  have gen: "canTransition \<lparr> sm_state = s', sm_context = ctx \<rparr> a'
        = \<lparr> allowed = False, reason = Some (CannotFrom s' a') \<rparr>"
    if "\<not> (\<exists>t \<in> set transitions. tr_action t = a' \<and> s' \<in> set (tr_from t))" for s' a'
  proof -
    from that have "find_transition \<lparr> sm_state = s', sm_context = ctx \<rparr> a' = None"
      by (simp add: find_transition_None)
    then show ?thesis by (simp add: canTransition_def)
  qed
  have "\<not> (\<exists>t \<in> set transitions. tr_action t = CLOCK_IN \<and> WORKING \<in> set (tr_from t))"
    by (simp add: transitions_def)
  with gen show ?thesis by blast
qed

theorem canTransition_total_on_missing_entries_witness:
  "\<not> (\<exists>t \<in> set transitions. tr_action t = CLOCK_OUT \<and> ON_BREAK \<in> set (tr_from t))
   \<and> canTransition \<lparr> sm_state = ON_BREAK,
                      sm_context = \<lparr> ctx_schedule = None, ctx_attendance = None,
                                     ctx_currentBreakId = None \<rparr> \<rparr> CLOCK_OUT
        = \<lparr> allowed = False, reason = Some (CannotFrom ON_BREAK CLOCK_OUT) \<rparr>"
proof -
  have h: "\<not> (\<exists>t \<in> set transitions. tr_action t = CLOCK_OUT \<and> ON_BREAK \<in> set (tr_from t))"
    by (simp add: transitions_def)
  show ?thesis
    using h canTransition_total_on_missing_entries [of CLOCK_OUT ON_BREAK
      "\<lparr> ctx_schedule = None, ctx_attendance = None, ctx_currentBreakId = None \<rparr>"]
    by blast
qed



subsection \<open>Payroll\<close>


















end
